theory Spec2Isabelle
  imports Complex_Main "HOL-Library.AList" "HOL-Library.Char_ord" "HOL-Library.List_Lexorder"
begin

section \<open>The trading loop of zerodha\_bot/trading\_bot.py\<close>

text \<open>
  The engine is a single Python function, \<^verbatim>\<open>run_trading_loop\<close>, that talks to a broker
  client (\<^verbatim>\<open>kite\<close>), the clock, the file system and the logger. The model below keeps the
  control flow of the source and makes every effect explicit:
  \<^item> the outside world is a value of an arbitrary type \<open>'w\<close>; the calls the engine makes
    on it are the fields of the record \<open>env\<close>, each returning its answer and the next world;
  \<^item> a call that raises returns \<open>Inl\<close> of the exception; every \<^verbatim>\<open>try/except Exception\<close>
    of the source is a case distinction on that result;
  \<^item> \<^verbatim>\<open>open_trades\<close>, a Python dict, is an association list in insertion order (the exit
    scan iterates \<^verbatim>\<open>list(open_trades.items())\<close>);
  \<^item> what the engine does to the outside is recorded, in order, in the field \<open>trace\<close>:
    every call of \<^verbatim>\<open>place_market_order\<close>, every line written to the journal
    \<^verbatim>\<open>trades.jsonl\<close>, every logger call;
  \<^item> a Python float is the real number it stands for (NaN and the infinities are outside
    the model); comparisons and \<^verbatim>\<open>//\<close> are exact on floats, and every other operation
    is the exact result rounded by \<open>fl_round\<close>, the rounding of the machine, which the
    model takes as given, as it takes \<^verbatim>\<open>str.strip\<close> and \<^verbatim>\<open>str.upper\<close>.
\<close>

subsection \<open>Data\<close>

type_synonym symbol = string
type_synonym time_of_day = nat  \<comment> \<open>a \<^verbatim>\<open>datetime.time\<close>, in microseconds since midnight\<close>

datatype side = BUY | SELL

datatype error = Exception string

text \<open>A value of \<^verbatim>\<open>open_trades\<close>: the dict built at lines 158-163.\<close>

record position =
  quantity :: int
  buy_price :: real
  target :: real
  stop :: real

text \<open>The dict \<^verbatim>\<open>entry\<close> that \<^verbatim>\<open>log_trade\<close> writes as one line of the journal.\<close>

record trade_entry =
  e_timestamp :: string
  e_symbol :: symbol
  e_action :: side
  e_quantity :: int
  e_price :: real

text \<open>
  What \<^verbatim>\<open>margins.get("net", 0.0)\<close> finds in the reply of \<^verbatim>\<open>kite.margins\<close>. A value that
  \<^verbatim>\<open>float\<close> rejects raises inside the same \<^verbatim>\<open>try\<close> as the call and is a failed reply.
\<close>

datatype net_value = Absent | Null | Number real

text \<open>An element of the JSON list \<^verbatim>\<open>stocks\<close>: only strings pass \<^verbatim>\<open>isinstance(symbol, str)\<close>.\<close>

datatype json_item = JStr string | JOther

text \<open>
  A JSON file as the two loaders see it: absent; present but \<^verbatim>\<open>open\<close>/\<^verbatim>\<open>json.load\<close> raises;
  loaded but \<^verbatim>\<open>data.get("stocks", [])\<close> or the iteration over it raises; or loaded, with
  the list that \<^verbatim>\<open>data.get("stocks", [])\<close> returns.
\<close>

datatype json_file = NoFile | Unreadable error | BadShape error | Loaded "json_item list"

datatype log_line =
    WarnNoPredictions
  | ErrorPredictions error
  | ErrorExcluded error
  | InfoSymbols "symbol list"
  | InfoExcluded "symbol set"
  | InfoStarting
  | InfoDryRun side symbol int
  | ErrorMargins error
  | ErrorPrice symbol error
  | InfoBuy symbol int real string
  | ErrorBuy symbol error
  | ErrorPriceExit symbol error
  | InfoSell symbol int real string
  | ErrorSell symbol error
  | InfoMaxCycles int

datatype event =
    Request side symbol int bool  \<comment> \<open>\<^verbatim>\<open>place_market_order(symbol, quantity, transaction_type, dry_run)\<close>\<close>
  | Journal trade_entry           \<comment> \<open>a line appended to \<^verbatim>\<open>trades.jsonl\<close>\<close>
  | Log log_line

record 'w env =
  now_time :: "'w \<Rightarrow> time_of_day"  \<comment> \<open>\<^verbatim>\<open>datetime.datetime.now(TZ).time()\<close>\<close>
  now_text :: "'w \<Rightarrow> string"  \<comment> \<open>\<^verbatim>\<open>datetime.datetime.now(TZ).strftime(...)\<close>\<close>
  epoch_text :: "'w \<Rightarrow> string"  \<comment> \<open>the digits of \<^verbatim>\<open>int(time.time())\<close>\<close>
  time_sleep :: "int \<Rightarrow> 'w \<Rightarrow> 'w"
  kite_margins :: "'w \<Rightarrow> (error + net_value) \<times> 'w"
  kite_ltp :: "string \<Rightarrow> 'w \<Rightarrow> (error + real) \<times> 'w"
    \<comment> \<open>\<^verbatim>\<open>float(kite.ltp([instrument])[instrument]["last_price"])\<close>\<close>
  kite_place_order :: "symbol \<Rightarrow> side \<Rightarrow> int \<Rightarrow> 'w \<Rightarrow> (error + string) \<times> 'w"
  journal_write :: "trade_entry \<Rightarrow> 'w \<Rightarrow> (error + unit) \<times> 'w"
    \<comment> \<open>opening \<^verbatim>\<open>trades.jsonl\<close> for append and writing one line\<close>
  predictions_file :: "'w \<Rightarrow> json_file"
  exclude_file :: "'w \<Rightarrow> json_file"
  fl_round :: "real \<Rightarrow> real"  \<comment> \<open>the nearest float: \<^verbatim>\<open>x * y\<close> is \<open>fl_round (x * y)\<close>\<close>
  str_strip :: "string \<Rightarrow> string"  \<comment> \<open>\<^verbatim>\<open>str.strip\<close>\<close>
  str_upper :: "string \<Rightarrow> string"  \<comment> \<open>\<^verbatim>\<open>str.upper\<close>\<close>

record 'w engine =
  world :: 'w
  open_trades :: "(symbol \<times> position) list"
  cycle_count :: int
  trace :: "event list"

definition emit :: "event \<Rightarrow> 'w engine \<Rightarrow> 'w engine" where
  "emit e st = st\<lparr>trace := trace st @ [e]\<rparr>"

text \<open>Lines 21-22: the literals \<^verbatim>\<open>0.02\<close> and \<^verbatim>\<open>0.01\<close> are the floats nearest to 2/100 and 1/100.\<close>

definition PROFIT_TARGET :: "'w env \<Rightarrow> real" where
  "PROFIT_TARGET io = fl_round io (2 / 100)"

definition STOP_LOSS :: "'w env \<Rightarrow> real" where
  "STOP_LOSS io = fl_round io (1 / 100)"

definition datetime_time :: "nat \<Rightarrow> nat \<Rightarrow> time_of_day" where
  "datetime_time h m = (h * 60 + m) * 60 * 1000000"

subsection \<open>Loading the prediction list and the exclusion set\<close>




subsection \<open>Journal and orders\<close>

definition log_trade ::
  "'w env \<Rightarrow> side \<Rightarrow> symbol \<Rightarrow> int \<Rightarrow> real \<Rightarrow> 'w engine \<Rightarrow> (error + unit) \<times> 'w engine" where
  "log_trade io act symbol qty price st =
     (let entry = \<lparr>e_timestamp = now_text io (world st), e_symbol = symbol, e_action = act,
                   e_quantity = qty, e_price = price\<rparr>
      in case journal_write io entry (world st) of
           (Inl exc, w) \<Rightarrow> (Inl exc, st\<lparr>world := w\<rparr>)
         | (Inr u, w) \<Rightarrow> (Inr (), emit (Journal entry) (st\<lparr>world := w\<rparr>)))"

definition lower_side :: "side \<Rightarrow> string" where
  "lower_side s = (case s of BUY \<Rightarrow> ''buy'' | SELL \<Rightarrow> ''sell'')"

definition place_market_order ::
  "'w env \<Rightarrow> symbol \<Rightarrow> int \<Rightarrow> side \<Rightarrow> bool \<Rightarrow> 'w engine \<Rightarrow> (error + string) \<times> 'w engine" where
  "place_market_order io symbol qty transaction_type dry_run st0 =
     (let st = emit (Request transaction_type symbol qty dry_run) st0
      in if dry_run then
           (Inr (''dry-run-'' @ lower_side transaction_type @ ''-'' @ symbol @ ''-''
                   @ epoch_text io (world st)),
            emit (Log (InfoDryRun transaction_type symbol qty)) st)
         else
           (case kite_place_order io symbol transaction_type qty (world st) of
              (r, w) \<Rightarrow> (r, st\<lparr>world := w\<rparr>)))"

subsection \<open>One cycle\<close>

text \<open>Lines 121-126: the wallet of the cycle.\<close>

definition fetch_wallet :: "'w env \<Rightarrow> 'w engine \<Rightarrow> real \<times> 'w engine" where
  "fetch_wallet io st =
     (case kite_margins io (world st) of
        (Inl exc, w) \<Rightarrow> (0, emit (Log (ErrorMargins exc)) (st\<lparr>world := w\<rparr>))
      | (Inr Absent, w) \<Rightarrow> (0, st\<lparr>world := w\<rparr>)
      | (Inr Null, w) \<Rightarrow> (0, st\<lparr>world := w\<rparr>)
      | (Inr (Number net), w) \<Rightarrow> (net, st\<lparr>world := w\<rparr>))"

text \<open>
  Lines 158-163: the position recorded for a fill of \<open>qty\<close> shares at \<open>last_price\<close>. The sum,
  the difference and the two products are float operations, each rounded.
\<close>

definition new_position :: "'w env \<Rightarrow> int \<Rightarrow> real \<Rightarrow> position" where
  "new_position io qty last_price =
     \<lparr>quantity = qty, buy_price = last_price,
      target = fl_round io (last_price * fl_round io (1 + PROFIT_TARGET io)),
      stop = fl_round io (last_price * fl_round io (1 - STOP_LOSS io))\<rparr>"

definition instrument :: "symbol \<Rightarrow> string" where
  "instrument symbol = ''NSE:'' @ symbol"

text \<open>
  Lines 147-166: the \<^verbatim>\<open>try/except\<close> around a BUY. The journal line, the new position and
  the wallet update all stand inside the \<^verbatim>\<open>try\<close>, after the order. Line 164,
  \<^verbatim>\<open>wallet -= qty * last_price\<close>, turns the int into a float, multiplies and subtracts,
  rounding each time.
\<close>

definition try_buy ::
  "'w env \<Rightarrow> bool \<Rightarrow> symbol \<Rightarrow> int \<Rightarrow> real \<Rightarrow> real \<times> 'w engine \<Rightarrow> real \<times> 'w engine" where
  "try_buy io dry_run symbol qty last_price ws =
     (case place_market_order io symbol qty BUY dry_run (snd ws) of
        (Inl exc, st1) \<Rightarrow> (fst ws, emit (Log (ErrorBuy symbol exc)) st1)
      | (Inr order_id, st1) \<Rightarrow>
          (case log_trade io BUY symbol qty last_price
                  (emit (Log (InfoBuy symbol qty last_price order_id)) st1) of
             (Inl exc, st2) \<Rightarrow> (fst ws, emit (Log (ErrorBuy symbol exc)) st2)
           | (Inr u, st2) \<Rightarrow>
               (fl_round io (fst ws - fl_round io (fl_round io (of_int qty) * last_price)),
                st2\<lparr>open_trades :=
                      AList.update symbol (new_position io qty last_price) (open_trades st2)\<rparr>)))"

text \<open>Lines 128-166: the body of the entry scan, for one symbol of \<^verbatim>\<open>symbols_to_trade\<close>.\<close>

fun entry_step ::
  "'w env \<Rightarrow> bool \<Rightarrow> symbol set \<Rightarrow> real \<times> 'w engine \<Rightarrow> symbol \<Rightarrow> real \<times> 'w engine" where
  "entry_step io dry_run excluded_stocks (wallet, st) symbol =
     (if symbol \<in> excluded_stocks \<or> symbol \<in> fst ` set (open_trades st) then (wallet, st)
      else
        case kite_ltp io (instrument symbol) (world st) of
          (Inl exc, w) \<Rightarrow> (wallet, emit (Log (ErrorPrice symbol exc)) (st\<lparr>world := w\<rparr>))
        | (Inr last_price, w) \<Rightarrow>
            if wallet < last_price \<or> last_price \<le> 0 then (wallet, st\<lparr>world := w\<rparr>)
            else
              let qty = floor (wallet / last_price) in
              if qty < 1 then (wallet, st\<lparr>world := w\<rparr>)
              else try_buy io dry_run symbol qty last_price (wallet, st\<lparr>world := w\<rparr>))"

text \<open>Lines 185-196: the \<^verbatim>\<open>try/except\<close> around a SELL.\<close>

definition try_sell ::
  "'w env \<Rightarrow> bool \<Rightarrow> symbol \<Rightarrow> int \<Rightarrow> real \<Rightarrow> 'w engine \<Rightarrow> 'w engine" where
  "try_sell io dry_run symbol qty last_price st =
     (case place_market_order io symbol qty SELL dry_run st of
        (Inl exc, st1) \<Rightarrow> emit (Log (ErrorSell symbol exc)) st1
      | (Inr order_id, st1) \<Rightarrow>
          (case log_trade io SELL symbol qty last_price
                  (emit (Log (InfoSell symbol qty last_price order_id)) st1) of
             (Inl exc, st2) \<Rightarrow> emit (Log (ErrorSell symbol exc)) st2
           | (Inr u, st2) \<Rightarrow> st2))"

text \<open>
  Lines 168-198: the body of the exit scan, for one item of the snapshot
  \<^verbatim>\<open>list(open_trades.items())\<close>. The \<^verbatim>\<open>pop\<close> of line 198 stands after the
  \<^verbatim>\<open>try/except\<close>, so it runs on both of its branches.
\<close>

fun exit_step ::
  "'w env \<Rightarrow> bool \<Rightarrow> time_of_day \<Rightarrow> 'w engine \<Rightarrow> symbol \<times> position \<Rightarrow> 'w engine" where
  "exit_step io dry_run current_time st (symbol, trade_info) =
     (let qty = quantity trade_info; tgt = target trade_info; stp = stop trade_info in
      case kite_ltp io (instrument symbol) (world st) of
        (Inl exc, w) \<Rightarrow> emit (Log (ErrorPriceExit symbol exc)) (st\<lparr>world := w\<rparr>)
      | (Inr last_price, w) \<Rightarrow>
          let should_exit =
                (last_price \<ge> tgt \<or> last_price \<le> stp \<or> current_time \<ge> datetime_time 15 10)
          in if \<not> should_exit then st\<lparr>world := w\<rparr>
             else
               let st3 = try_sell io dry_run symbol qty last_price (st\<lparr>world := w\<rparr>)
               in st3\<lparr>open_trades := AList.delete symbol (open_trades st3)\<rparr>)"

definition entry_scan ::
  "'w env \<Rightarrow> bool \<Rightarrow> symbol set \<Rightarrow> symbol list \<Rightarrow> real \<times> 'w engine \<Rightarrow> real \<times> 'w engine" where
  "entry_scan io dry_run excluded_stocks symbols_to_trade ws =
     foldl (entry_step io dry_run excluded_stocks) ws symbols_to_trade"

definition exit_scan :: "'w env \<Rightarrow> bool \<Rightarrow> time_of_day \<Rightarrow> 'w engine \<Rightarrow> 'w engine" where
  "exit_scan io dry_run current_time st =
     foldl (exit_step io dry_run current_time) st (open_trades st)"

definition in_window :: "time_of_day \<Rightarrow> bool" where
  "in_window current_time =
     (datetime_time 9 30 \<le> current_time \<and> current_time \<le> datetime_time 15 15)"

text \<open>Lines 116-202: one pass of the body of \<^verbatim>\<open>while True\<close>, up to the test of line 204.\<close>

definition trading_cycle ::
  "'w env \<Rightarrow> int \<Rightarrow> bool \<Rightarrow> symbol list \<Rightarrow> symbol set \<Rightarrow> 'w engine \<Rightarrow> 'w engine" where
  "trading_cycle io poll_seconds dry_run symbols_to_trade excluded_stocks st0 =
     (let st = st0\<lparr>cycle_count := cycle_count st0 + 1\<rparr>;
          current_time = now_time io (world st)
      in if in_window current_time then
           let st2 = snd (entry_scan io dry_run excluded_stocks symbols_to_trade
                            (fetch_wallet io st));
               st3 = exit_scan io dry_run current_time st2
           in st3\<lparr>world := time_sleep io poll_seconds (world st3)\<rparr>
         else st\<lparr>world := time_sleep io (max 15 poll_seconds) (world st)\<rparr>)"

subsection \<open>The loop\<close>

text \<open>
  \<^verbatim>\<open>while True\<close> runs for ever when \<^verbatim>\<open>max_cycles\<close> is \<^verbatim>\<open>None\<close>. The loop takes fuel,
  one unit an iteration: \<open>Returned\<close> is the state at the \<^verbatim>\<open>break\<close>, \<open>Running\<close> the
  state at the head of the loop when the fuel is spent.
\<close>

datatype 'a outcome = Returned 'a | Running 'a

fun state_of :: "'a outcome \<Rightarrow> 'a" where
  "state_of (Returned st) = st"
| "state_of (Running st) = st"

fun trading_loop ::
  "nat \<Rightarrow> 'w env \<Rightarrow> int \<Rightarrow> int option \<Rightarrow> bool \<Rightarrow> symbol list \<Rightarrow> symbol set \<Rightarrow> 'w engine
     \<Rightarrow> 'w engine outcome" where
  "trading_loop 0 io poll_seconds max_cycles dry_run symbols_to_trade excluded_stocks st =
     Running st"
| "trading_loop (Suc fuel) io poll_seconds max_cycles dry_run symbols_to_trade excluded_stocks st =
     (let st1 = trading_cycle io poll_seconds dry_run symbols_to_trade excluded_stocks st in
      case max_cycles of
        None \<Rightarrow> trading_loop fuel io poll_seconds max_cycles dry_run symbols_to_trade
                  excluded_stocks st1
      | Some m \<Rightarrow>
          if cycle_count st1 \<ge> m then Returned (emit (Log (InfoMaxCycles m)) st1)
          else trading_loop fuel io poll_seconds max_cycles dry_run symbols_to_trade
                 excluded_stocks st1)"

definition initial :: "'w \<Rightarrow> 'w engine" where
  "initial w = \<lparr>world = w, open_trades = [], cycle_count = 0, trace = []\<rparr>"


subsection \<open>Observing a run\<close>

text \<open>The events a step adds to the trace: what stands in \<open>trace st'\<close> after \<open>trace st\<close>.\<close>

definition issued :: "'w engine \<Rightarrow> 'w engine \<Rightarrow> event list" where
  "issued st st' = drop (length (trace st)) (trace st')"

fun is_request :: "event \<Rightarrow> bool" where
  "is_request (Request sd symbol qty dry_run) = True"
| "is_request (Journal entry) = False"
| "is_request (Log line) = False"

definition requests :: "event list \<Rightarrow> event list" where
  "requests evs = filter is_request evs"

fun is_buy_of :: "symbol \<Rightarrow> event \<Rightarrow> bool" where
  "is_buy_of s (Request sd symbol qty dry_run) = (sd = BUY \<and> symbol = s)"
| "is_buy_of s (Journal entry) = False"
| "is_buy_of s (Log line) = False"

text \<open>
  Line 155 logs \<^verbatim>\<open>BUY ... (Order ID: ...)\<close> as soon as \<^verbatim>\<open>place_market_order\<close> has returned
  an order id, and only then: the placement of a BUY for the symbol reported success.
\<close>

fun is_buy_report :: "symbol \<Rightarrow> event \<Rightarrow> bool" where
  "is_buy_report s (Log (InfoBuy symbol qty price order_id)) = (symbol = s)"
| "is_buy_report s e = False"

definition buy_reported :: "symbol \<Rightarrow> event list \<Rightarrow> bool" where
  "buy_reported s evs = list_ex (is_buy_report s) evs"

text \<open>A BUY line for the symbol was appended to the journal.\<close>

fun is_buy_record :: "symbol \<Rightarrow> event \<Rightarrow> bool" where
  "is_buy_record s (Journal entry) = (e_symbol entry = s \<and> e_action entry = BUY)"
| "is_buy_record s e = False"

definition buy_recorded :: "symbol \<Rightarrow> event list \<Rightarrow> bool" where
  "buy_recorded s evs = list_ex (is_buy_record s) evs"

definition keys :: "(symbol \<times> position) list \<Rightarrow> symbol set" where
  "keys book = fst ` set book"

text \<open>
  The replies of \<^verbatim>\<open>kite.margins\<close> that give no balance: the call raised, or \<^verbatim>\<open>net\<close> is
  missing or null.
\<close>

definition balance_unavailable :: "error + net_value \<Rightarrow> bool" where
  "balance_unavailable r =
     (case r of Inl exc \<Rightarrow> True | Inr Absent \<Rightarrow> True | Inr Null \<Rightarrow> True
      | Inr (Number net) \<Rightarrow> False)"

text \<open>No position is open for the symbol and no BUY of it was ever requested.\<close>

definition never_entered :: "symbol \<Rightarrow> 'w engine \<Rightarrow> bool" where
  "never_entered s st = (s \<notin> keys (open_trades st) \<and> \<not> list_ex (is_buy_of s) (trace st))"




subsection \<open>Concrete environments\<close>

text \<open>
  The runtime of the concrete environments. Their text is ASCII, on which \<^verbatim>\<open>str.strip\<close>
  removes the characters 9-13 and 28-32 from both ends and \<^verbatim>\<open>str.upper\<close> maps a-z to A-Z.
\<close>

definition is_space :: "char \<Rightarrow> bool" where
  "is_space c = ((of_char c :: nat) \<in> {9, 10, 11, 12, 13, 28, 29, 30, 31, 32})"

definition ascii_strip :: "string \<Rightarrow> string" where
  "ascii_strip s = rev (dropWhile is_space (rev (dropWhile is_space s)))"

definition upper_char :: "char \<Rightarrow> char" where
  "upper_char c =
     (let n = (of_char c :: nat) in if 97 \<le> n \<and> n \<le> 122 then char_of (n - 32) else c)"

definition ascii_upper :: "string \<Rightarrow> string" where
  "ascii_upper s = map upper_char s"

text \<open>
  Their numbers are 2/100 and 1/100, which round to the floats \<^verbatim>\<open>0.02\<close> and \<^verbatim>\<open>0.01\<close>; one
  plus and one minus these, which round to the floats \<^verbatim>\<open>1.02\<close> and \<^verbatim>\<open>0.99\<close>; the products
  of 400 and of 700 with the latter two, which round to 408, 396, 714 and 693; and
  integers, which are floats.
\<close>

definition double_round :: "real \<Rightarrow> real" where
  "double_round x =
     (if x = 2 / 100 then 5764607523034235 / 288230376151711744
      else if x = 1 / 100 then 5764607523034235 / 576460752303423488
      else if x = 1 + 5764607523034235 / 288230376151711744
        then 2296835809958953 / 2251799813685248
      else if x = 1 - 5764607523034235 / 576460752303423488
        then 4458563631096791 / 4503599627370496
      else if x = 400 * (2296835809958953 / 2251799813685248) then 408
      else if x = 400 * (4458563631096791 / 4503599627370496) then 396
      else if x = 700 * (2296835809958953 / 2251799813685248) then 714
      else if x = 700 * (4458563631096791 / 4503599627370496) then 693
      else x)"

text \<open>
  A world without memory: the clock stands at \<open>t\<close>, the balance query answers \<open>m\<close>, the
  quote of an instrument is \<open>q\<close> of it, an order of side \<open>sd\<close> is answered by \<open>ord sd\<close> and a
  journal line of action \<open>sd\<close> by \<open>jrn sd\<close>; there is no file.
\<close>

definition fixed_env ::
  "time_of_day \<Rightarrow> error + net_value \<Rightarrow> (string \<Rightarrow> error + real) \<Rightarrow> (side \<Rightarrow> error + string)
     \<Rightarrow> (side \<Rightarrow> error + unit) \<Rightarrow> unit env" where
  "fixed_env t m q ord jrn =
     \<lparr>now_time = (\<lambda>w. t), now_text = (\<lambda>w. ''2024-01-01 10:00:00''), epoch_text = (\<lambda>w. ''1704083400''),
      time_sleep = (\<lambda>secs w. w),
      kite_margins = (\<lambda>w. (m, w)),
      kite_ltp = (\<lambda>i w. (q i, w)),
      kite_place_order = (\<lambda>symbol sd qty w. (ord sd, w)),
      journal_write = (\<lambda>entry w. (jrn (e_action entry), w)),
      predictions_file = (\<lambda>w. NoFile),
      exclude_file = (\<lambda>w. NoFile),
      fl_round = double_round, str_strip = ascii_strip, str_upper = ascii_upper\<rparr>"

definition accept :: "side \<Rightarrow> error + string" where
  "accept sd = Inr ''240101000000001''"

definition reject :: "side \<Rightarrow> error + string" where
  "reject sd = Inl (Exception ''order rejected'')"

definition written :: "side \<Rightarrow> error + unit" where
  "written sd = Inr ()"

definition disk_full :: "side \<Rightarrow> error + unit" where
  "disk_full sd = Inl (Exception ''OSError: No space left on device'')"

text \<open>Quotes: A trades at 400, B at 700, nothing else is known to the feed.\<close>

definition quotes_AB :: "string \<Rightarrow> error + real" where
  "quotes_AB i =
     (if i = ''NSE:A'' then Inr 400 else if i = ''NSE:B'' then Inr 700
      else Inl (Exception ''unknown instrument''))"

text \<open>
  The position that lines 158-163 build for 5 shares bought at 400, and the engine
  holding it and nothing else.
\<close>

definition five_at_400 :: position where
  "five_at_400 = \<lparr>quantity = 5, buy_price = 400, target = 408, stop = 396\<rparr>"

definition holding_A :: "unit engine" where
  "holding_A = (initial ())\<lparr>open_trades := [(''A'', five_at_400)]\<rparr>"

text \<open>A world where it is \<open>t\<close> o'clock, every instrument trades at \<open>price\<close> and orders go through.\<close>

definition quoting :: "real \<Rightarrow> time_of_day \<Rightarrow> unit env" where
  "quoting price t = fixed_env t (Inr (Number 0)) (\<lambda>i. Inr price) accept written"

text \<open>The engine after it bought 2 shares of A at 400 in the world \<open>fixed_env\<close>.\<close>

definition bought_A :: "unit engine" where
  "bought_A =
     \<lparr>world = (),
      open_trades = [(''A'', \<lparr>quantity = 2, buy_price = 400, target = 408, stop = 396\<rparr>)],
      cycle_count = 0,
      trace = [Request BUY ''A'' 2 False, Log (InfoBuy ''A'' 2 400 ''240101000000001''),
               Journal \<lparr>e_timestamp = ''2024-01-01 10:00:00'', e_symbol = ''A'', e_action = BUY,
                        e_quantity = 2, e_price = 400\<rparr>]\<rparr>"






section \<open>Properties\<close>

subsection \<open>What each call adds to the state\<close>

lemma issued_append: "trace st' = trace st @ evs \<Longrightarrow> issued st st' = evs"
  by (simp add: issued_def)

lemma place_market_order_effect:
  assumes "place_market_order io symbol qty sd dry_run st = (r, st1)"
  shows "open_trades st1 = open_trades st \<and> cycle_count st1 = cycle_count st \<and>
         trace st1 = trace st @ Request sd symbol qty dry_run #
                       (if dry_run then [Log (InfoDryRun sd symbol qty)] else [])"
  using assms
  by (auto simp: place_market_order_def emit_def Let_def split: if_splits prod.splits)

lemma log_trade_effect:
  assumes "log_trade io act symbol qty price st = (r, st1)"
  shows "open_trades st1 = open_trades st \<and> cycle_count st1 = cycle_count st \<and>
         trace st1 = trace st @
           (case r of Inl exc \<Rightarrow> []
            | Inr u \<Rightarrow> [Journal \<lparr>e_timestamp = now_text io (world st), e_symbol = symbol,
                                 e_action = act, e_quantity = qty, e_price = price\<rparr>])"
  using assms
  by (auto simp: log_trade_def emit_def Let_def split: if_splits prod.splits sum.splits)

lemma try_sell_effect:
  "open_trades (try_sell io dry_run symbol qty last_price st) = open_trades st \<and>
   cycle_count (try_sell io dry_run symbol qty last_price st) = cycle_count st \<and>
   trace (try_sell io dry_run symbol qty last_price st) =
     trace st @ issued st (try_sell io dry_run symbol qty last_price st) \<and>
   requests (issued st (try_sell io dry_run symbol qty last_price st)) =
     [Request SELL symbol qty dry_run]"
proof -
  obtain r st1 where p: "place_market_order io symbol qty SELL dry_run st = (r, st1)"
    by (cases "place_market_order io symbol qty SELL dry_run st")
  note pe = place_market_order_effect [OF p]
  show ?thesis
  proof (cases r)
    case (Inl exc)
    with p pe show ?thesis
      by (simp add: try_sell_def emit_def issued_def requests_def)
  next
    case (Inr order_id)
    obtain r2 st2 where l: "log_trade io SELL symbol qty last_price
          (emit (Log (InfoSell symbol qty last_price order_id)) st1) = (r2, st2)"
      by (cases "log_trade io SELL symbol qty last_price
          (emit (Log (InfoSell symbol qty last_price order_id)) st1)")
    note le = log_trade_effect [OF l]
    from p pe Inr l le show ?thesis
      by (cases r2) (simp_all add: try_sell_def emit_def issued_def requests_def)
  qed
qed

lemma try_buy_effect:
  assumes "try_buy io dry_run symbol qty last_price (wallet, st) = (wallet', st')"
  shows "cycle_count st' = cycle_count st \<and>
   trace st' = trace st @ issued st st' \<and>
   requests (issued st st') = [Request BUY symbol qty dry_run] \<and>
   (if buy_reported symbol (issued st st') \<and> buy_recorded symbol (issued st st')
    then open_trades st' = AList.update symbol (new_position io qty last_price) (open_trades st) \<and>
         wallet' = fl_round io (wallet - fl_round io (fl_round io (of_int qty) * last_price))
    else open_trades st' = open_trades st \<and> wallet' = wallet)"
proof -
  obtain r st1 where p: "place_market_order io symbol qty BUY dry_run st = (r, st1)"
    by (cases "place_market_order io symbol qty BUY dry_run st")
  note pe = place_market_order_effect [OF p]
  show ?thesis
  proof (cases r)
    case (Inl exc)
    with assms p pe show ?thesis
      by (auto simp add: try_buy_def emit_def issued_def requests_def
            buy_reported_def buy_recorded_def split: if_splits)
  next
    case (Inr order_id)
    obtain r2 st2 where l: "log_trade io BUY symbol qty last_price
          (emit (Log (InfoBuy symbol qty last_price order_id)) st1) = (r2, st2)"
      by (cases "log_trade io BUY symbol qty last_price
          (emit (Log (InfoBuy symbol qty last_price order_id)) st1)")
    note le = log_trade_effect [OF l]
    from assms p pe Inr l le show ?thesis
      by (cases r2) (auto simp add: try_buy_def emit_def issued_def requests_def
            buy_reported_def buy_recorded_def split: if_splits)
  qed
qed


lemma entry_step_effect:
  assumes "entry_step io dry_run excluded_stocks (wallet, st) symbol = (wallet', st')"
  shows "cycle_count st' = cycle_count st \<and>
   trace st' = trace st @ issued st st' \<and>
   (requests (issued st st') = [] \<or>
    symbol \<notin> excluded_stocks \<and> symbol \<notin> keys (open_trades st) \<and>
    (\<exists>qty. requests (issued st st') = [Request BUY symbol qty dry_run])) \<and>
   (if buy_reported symbol (issued st st') \<and> buy_recorded symbol (issued st st')
    then symbol \<notin> excluded_stocks \<and> symbol \<notin> keys (open_trades st) \<and>
         (\<exists>last_price w. kite_ltp io (instrument symbol) (world st) = (Inr last_price, w) \<and>
            0 < last_price \<and> last_price \<le> wallet \<and>
            open_trades st' =
              AList.update symbol (new_position io \<lfloor>wallet / last_price\<rfloor> last_price)
                (open_trades st) \<and>
            wallet' = fl_round io (wallet -
                        fl_round io (fl_round io (of_int \<lfloor>wallet / last_price\<rfloor>) * last_price)))
    else open_trades st' = open_trades st \<and> wallet' = wallet)"
proof (cases "symbol \<in> excluded_stocks \<or> symbol \<in> fst ` set (open_trades st)")
  case True
  with assms show ?thesis
    by (auto simp: issued_def requests_def buy_reported_def buy_recorded_def)
next
  case False
  obtain r w where q: "kite_ltp io (instrument symbol) (world st) = (r, w)"
    by (cases "kite_ltp io (instrument symbol) (world st)")
  show ?thesis
  proof (cases r)
    case (Inl exc)
    with assms False q show ?thesis
      by (auto simp: emit_def issued_def requests_def buy_reported_def buy_recorded_def)
  next
    case (Inr last_price)
    show ?thesis
    proof (cases "wallet < last_price \<or> last_price \<le> 0 \<or> \<lfloor>wallet / last_price\<rfloor> < 1")
      case True
      with assms False q Inr have "wallet' = wallet \<and> st' = st\<lparr>world := w\<rparr>"
        by (auto simp: Let_def split: if_splits)
      then show ?thesis
        by (simp add: issued_def requests_def buy_reported_def buy_recorded_def)
    next
      case size: False
      let ?st = "st\<lparr>world := w\<rparr>"
      have b: "try_buy io dry_run symbol \<lfloor>wallet / last_price\<rfloor> last_price (wallet, ?st)
                 = (wallet', st')"
        using assms False q Inr size by (simp add: Let_def)
      have i: "issued ?st st' = issued st st'" by (simp add: issued_def)
      from try_buy_effect [OF b] False size q Inr show ?thesis
        by (simp add: i keys_def)
    qed
  qed
qed

lemma exit_step_effect:
  fixes st :: "'w engine"
  defines "res \<equiv> (\<lambda>io dry_run current_time (st :: 'w engine) symbol info.
                    exit_step io dry_run current_time st (symbol, info))"
  shows "cycle_count (res io dry_run current_time st symbol info) = cycle_count st \<and>
   trace (res io dry_run current_time st symbol info)
     = trace st @ issued st (res io dry_run current_time st symbol info) \<and>
   (case fst (kite_ltp io (instrument symbol) (world st)) of
      Inl exc \<Rightarrow>
        requests (issued st (res io dry_run current_time st symbol info)) = [] \<and>
        open_trades (res io dry_run current_time st symbol info) = open_trades st
    | Inr last_price \<Rightarrow>
        if last_price \<ge> target info \<or> last_price \<le> stop info \<or> current_time \<ge> datetime_time 15 10
        then requests (issued st (res io dry_run current_time st symbol info))
               = [Request SELL symbol (quantity info) dry_run] \<and>
             open_trades (res io dry_run current_time st symbol info)
               = AList.delete symbol (open_trades st)
        else requests (issued st (res io dry_run current_time st symbol info)) = [] \<and>
             open_trades (res io dry_run current_time st symbol info) = open_trades st)"
proof -
  obtain r w where q: "kite_ltp io (instrument symbol) (world st) = (r, w)"
    by (cases "kite_ltp io (instrument symbol) (world st)")
  show ?thesis
  proof (cases r)
    case (Inl exc)
    with q show ?thesis
      by (simp add: res_def emit_def issued_def requests_def)
  next
    case (Inr last_price)
    let ?st = "st\<lparr>world := w\<rparr>"
    note e = try_sell_effect [of io dry_run symbol "quantity info" last_price ?st]
    have i: "\<And>st'. issued ?st st' = issued st st'" by (simp add: issued_def)
    show ?thesis
    proof (cases "last_price \<ge> target info \<or> last_price \<le> stop info
                    \<or> current_time \<ge> datetime_time 15 10")
      case True
      then have "res io dry_run current_time st symbol info =
          (try_sell io dry_run symbol (quantity info) last_price ?st)
            \<lparr>open_trades := AList.delete symbol
               (open_trades (try_sell io dry_run symbol (quantity info) last_price ?st))\<rparr>"
        using q Inr by (auto simp: res_def Let_def)
      with q Inr e True show ?thesis
        by (auto simp: i issued_def)
    next
      case False
      then have "res io dry_run current_time st symbol info = ?st"
        using q Inr by (auto simp: res_def Let_def)
      with q Inr False show ?thesis
        by (auto simp: issued_def requests_def)
    qed
  qed
qed


declare entry_step.simps [simp del] exit_step.simps [simp del]

lemma fetch_wallet_effect:
  "open_trades (snd (fetch_wallet io st)) = open_trades st \<and>
   cycle_count (snd (fetch_wallet io st)) = cycle_count st \<and>
   trace (snd (fetch_wallet io st)) = trace st @ issued st (snd (fetch_wallet io st)) \<and>
   requests (issued st (snd (fetch_wallet io st))) = []"
  by (auto simp: fetch_wallet_def emit_def issued_def requests_def
      split: prod.splits sum.splits net_value.splits)

subsection \<open>Invariants of the scans, the cycle and the loop\<close>

lemma entry_scan_invariant:
  assumes step: "\<And>wallet st symbol. P st \<Longrightarrow>
            P (snd (entry_step io dry_run excluded_stocks (wallet, st) symbol))"
    and "P (snd ws)"
  shows "P (snd (entry_scan io dry_run excluded_stocks symbols_to_trade ws))"
  using assms(2)
proof (induction symbols_to_trade arbitrary: ws)
  case Nil
  then show ?case by (simp add: entry_scan_def)
next
  case (Cons symbol rest)
  obtain wallet st where ws: "ws = (wallet, st)" by (cases ws)
  have "P (snd (entry_step io dry_run excluded_stocks (wallet, st) symbol))"
    using Cons.prems ws step by simp
  then have "P (snd (entry_scan io dry_run excluded_stocks rest
                 (entry_step io dry_run excluded_stocks (wallet, st) symbol)))"
    by (rule Cons.IH)
  then show ?case by (simp add: entry_scan_def ws)
qed

lemma exit_fold_invariant:
  assumes step: "\<And>st item. P st \<Longrightarrow> P (exit_step io dry_run current_time st item)"
    and "P st"
  shows "P (foldl (exit_step io dry_run current_time) st items)"
  using assms(2)
  by (induction items arbitrary: st) (simp_all add: step)

lemma trading_cycle_invariant:
  assumes entry: "\<And>wallet st symbol. P st \<Longrightarrow>
            P (snd (entry_step io dry_run excluded_stocks (wallet, st) symbol))"
    and exit: "\<And>current_time st item. P st \<Longrightarrow> P (exit_step io dry_run current_time st item)"
    and wallet: "\<And>st. P st \<Longrightarrow> P (snd (fetch_wallet io st))"
    and count: "\<And>st c. P st \<Longrightarrow> P (st\<lparr>cycle_count := c\<rparr>)"
    and world: "\<And>st w. P st \<Longrightarrow> P (st\<lparr>world := w\<rparr>)"
    and "P st"
  shows "P (trading_cycle io poll_seconds dry_run symbols_to_trade excluded_stocks st)"
proof -
  let ?st = "st\<lparr>cycle_count := cycle_count st + 1\<rparr>"
  let ?now = "now_time io (world ?st)"
  have 1: "P ?st" using assms(6) by (rule count)
  have 2: "P (snd (fetch_wallet io ?st))" using 1 by (rule wallet)
  have 3: "P (snd (entry_scan io dry_run excluded_stocks symbols_to_trade (fetch_wallet io ?st)))"
    using entry 2 by (rule entry_scan_invariant)
  have 4: "P (exit_scan io dry_run ?now
             (snd (entry_scan io dry_run excluded_stocks symbols_to_trade (fetch_wallet io ?st))))"
    unfolding exit_scan_def using exit 3 by (rule exit_fold_invariant)
  show ?thesis
  proof (cases "in_window ?now")
    case True
    with world [OF 4] show ?thesis by (simp add: trading_cycle_def Let_def)
  next
    case False
    with world [OF 1] show ?thesis by (simp add: trading_cycle_def Let_def)
  qed
qed

lemma trading_loop_invariant:
  assumes entry: "\<And>wallet st symbol. P st \<Longrightarrow>
            P (snd (entry_step io dry_run excluded_stocks (wallet, st) symbol))"
    and exit: "\<And>current_time st item. P st \<Longrightarrow> P (exit_step io dry_run current_time st item)"
    and wallet: "\<And>st. P st \<Longrightarrow> P (snd (fetch_wallet io st))"
    and count: "\<And>st c. P st \<Longrightarrow> P (st\<lparr>cycle_count := c\<rparr>)"
    and world: "\<And>st w. P st \<Longrightarrow> P (st\<lparr>world := w\<rparr>)"
    and log: "\<And>st line. P st \<Longrightarrow> P (emit (Log line) st)"
    and "P st"
  shows "P (state_of (trading_loop fuel io poll_seconds max_cycles dry_run symbols_to_trade
                        excluded_stocks st))"
  using assms(7)
proof (induction fuel arbitrary: st)
  case 0
  then show ?case by simp
next
  case (Suc fuel)
  have c: "P (trading_cycle io poll_seconds dry_run symbols_to_trade excluded_stocks st)"
    using entry exit wallet count world Suc.prems by (rule trading_cycle_invariant)
  show ?case
  proof (cases max_cycles)
    case None
    with Suc.IH [OF c] show ?thesis by (simp add: Let_def)
  next
    case (Some m)
    with Suc.IH [OF c] log [OF c] show ?thesis by (simp add: Let_def)
  qed
qed


lemma buy_of_requests: "list_ex (is_buy_of s) evs = list_ex (is_buy_of s) (requests evs)"
proof (induction evs)
  case Nil
  then show ?case by (simp add: requests_def)
next
  case (Cons e evs)
  then show ?case by (cases e) (simp_all add: requests_def)
qed

lemma keys_update: "keys (AList.update k v book) = insert k (keys book)"
  by (simp add: keys_def dom_update)

lemma keys_delete: "keys (AList.delete k book) = keys book - {k}"
  by (auto simp: keys_def AList.delete_eq)

lemma never_entered_entry:
  assumes "x \<in> excluded_stocks" and "never_entered x st"
  shows "never_entered x (snd (entry_step io dry_run excluded_stocks (wallet, st) symbol))"
proof -
  obtain wallet' st' where e: "entry_step io dry_run excluded_stocks (wallet, st) symbol = (wallet', st')"
    by (cases "entry_step io dry_run excluded_stocks (wallet, st) symbol")
  note eff = entry_step_effect [OF e]
  have t: "trace st' = trace st @ issued st st'" using eff by simp
  have r: "\<not> list_ex (is_buy_of x) (requests (issued st st'))"
    using eff assms(1) by auto
  have b: "x \<notin> keys (open_trades st')"
    using eff assms by (auto simp: never_entered_def keys_update split: if_splits)
  have "\<not> list_ex (is_buy_of x) (trace st')"
    using assms(2) r buy_of_requests [of x "issued st st'"]
    by (subst t) (simp add: never_entered_def)
  with b show ?thesis by (simp add: e never_entered_def)
qed

lemma never_entered_exit:
  assumes "never_entered x st"
  shows "never_entered x (exit_step io dry_run current_time st item)"
proof -
  obtain symbol info where i: "item = (symbol, info)" by (cases item)
  let ?st' = "exit_step io dry_run current_time st (symbol, info)"
  note eff = exit_step_effect [of io dry_run current_time st symbol info]
  have t: "trace ?st' = trace st @ issued st ?st'" using eff by simp
  have r: "\<not> list_ex (is_buy_of x) (requests (issued st ?st'))"
    using eff by (auto split: sum.splits if_splits)
  have b: "x \<notin> keys (open_trades ?st')"
    using eff assms by (auto simp: never_entered_def keys_delete split: sum.splits if_splits)
  have "\<not> list_ex (is_buy_of x) (trace ?st')"
    using assms r buy_of_requests [of x "issued st ?st'"]
    by (subst t) (simp add: never_entered_def)
  with b show ?thesis by (simp add: i never_entered_def)
qed

lemma never_entered_wallet:
  assumes "never_entered x st"
  shows "never_entered x (snd (fetch_wallet io st))"
proof -
  let ?st' = "snd (fetch_wallet io st)"
  note eff = fetch_wallet_effect [of io st]
  have t: "trace ?st' = trace st @ issued st ?st'" using eff by simp
  have "\<not> list_ex (is_buy_of x) (trace ?st')"
    using assms eff buy_of_requests [of x "issued st ?st'"]
    by (subst t) (simp add: never_entered_def)
  with eff assms show ?thesis by (simp add: never_entered_def)
qed

lemma never_entered_loop:
  assumes "x \<in> excluded_stocks" and "never_entered x st"
  shows "never_entered x (state_of (trading_loop fuel io poll_seconds max_cycles dry_run
            symbols_to_trade excluded_stocks st))"
proof (rule trading_loop_invariant [where P = "never_entered x"])
  show "never_entered x st" by (rule assms(2))
qed (simp_all add: never_entered_entry [OF assms(1)] never_entered_exit never_entered_wallet,
     simp_all add: never_entered_def emit_def)


lemmas run_defs =
  trading_cycle_def entry_scan_def exit_scan_def fetch_wallet_def in_window_def
  entry_step.simps exit_step.simps try_buy_def try_sell_def
  fixed_env_def double_round_def five_at_400_def quotes_AB_def accept_def reject_def written_def disk_full_def initial_def
  instrument_def place_market_order_def emit_def log_trade_def new_position_def Let_def
  PROFIT_TARGET_def STOP_LOSS_def datetime_time_def lower_side_def keys_def issued_def
  requests_def

lemma distinct_entry:
  assumes "distinct (map fst (open_trades st))"
  shows "distinct (map fst (open_trades (snd (entry_step io dry_run excluded_stocks (wallet, st) symbol))))"
proof -
  obtain wallet' st' where e: "entry_step io dry_run excluded_stocks (wallet, st) symbol = (wallet', st')"
    by (cases "entry_step io dry_run excluded_stocks (wallet, st) symbol")
  from entry_step_effect [OF e] assms show ?thesis
    by (auto simp: e distinct_update split: if_splits)
qed

lemma distinct_exit:
  assumes "distinct (map fst (open_trades st))"
  shows "distinct (map fst (open_trades (exit_step io dry_run current_time st item)))"
proof -
  obtain symbol info where i: "item = (symbol, info)" by (cases item)
  from exit_step_effect [of io dry_run current_time st symbol info] assms show ?thesis
    by (auto simp: i distinct_delete split: sum.splits if_splits)
qed

lemma distinct_loop:
  assumes "distinct (map fst (open_trades st))"
  shows "distinct (map fst (open_trades (state_of (trading_loop fuel io poll_seconds max_cycles
            dry_run symbols_to_trade excluded_stocks st))))"
proof (rule trading_loop_invariant [where P = "\<lambda>st. distinct (map fst (open_trades st))"])
  show "distinct (map fst (open_trades st))" by (rule assms)
qed (simp_all add: distinct_entry distinct_exit fetch_wallet_effect emit_def)






subsection \<open>Sizing of a BUY\<close>

lemma floor_quotient_ge_1:
  fixes wallet last_price :: real
  assumes "0 < last_price" "last_price \<le> wallet"
  shows "1 \<le> \<lfloor>wallet / last_price\<rfloor>"
proof -
  have "1 \<le> wallet / last_price" using assms by simp
  then show ?thesis by linarith
qed

lemma entry_step_sized:
  assumes "symbol \<notin> excluded_stocks" and "symbol \<notin> keys (open_trades st)"
    and "kite_ltp io (instrument symbol) (world st) = (Inr last_price, w)"
    and "0 < last_price" and "last_price \<le> wallet"
  shows "entry_step io dry_run excluded_stocks (wallet, st) symbol =
           try_buy io dry_run symbol \<lfloor>wallet / last_price\<rfloor> last_price
             (wallet, st\<lparr>world := w\<rparr>)"
proof -
  have "\<not> \<lfloor>wallet / last_price\<rfloor> < 1"
    using floor_quotient_ge_1 [OF assms(4,5)] by linarith
  with assms show ?thesis
    by (simp add: entry_step.simps keys_def Let_def)
qed

text \<open>
  C7. A candidate that reaches the sizing step (it is neither excluded nor open and its
  quote was fetched) with \<open>wallet \<ge> last_price > 0\<close> is sized at
  \<open>\<lfloor>wallet / last_price\<rfloor>\<close>, which is at least 1, and the step calls
  \<^verbatim>\<open>place_market_order\<close> exactly once, for a BUY of that symbol and that quantity.
\<close>

theorem buy_quantity_is_floor:
  assumes "symbol \<notin> excluded_stocks" and "symbol \<notin> keys (open_trades st)"
    and "kite_ltp io (instrument symbol) (world st) = (Inr last_price, w)"
    and "0 < last_price" and "last_price \<le> wallet"
  shows "1 \<le> \<lfloor>wallet / last_price\<rfloor> \<and>
         requests (issued st (snd (entry_step io dry_run excluded_stocks (wallet, st) symbol)))
           = [Request BUY symbol \<lfloor>wallet / last_price\<rfloor> dry_run]"
proof -
  let ?qty = "\<lfloor>wallet / last_price\<rfloor>"
  let ?st = "st\<lparr>world := w\<rparr>"
  obtain wallet' st' where b: "try_buy io dry_run symbol ?qty last_price (wallet, ?st) = (wallet', st')"
    by (cases "try_buy io dry_run symbol ?qty last_price (wallet, ?st)")
  have e: "entry_step io dry_run excluded_stocks (wallet, st) symbol = (wallet', st')"
    using entry_step_sized [OF assms] b by simp
  have i: "issued ?st st' = issued st st'" by (simp add: issued_def)
  from try_buy_effect [OF b] floor_quotient_ge_1 [OF assms(4,5)] show ?thesis
    by (simp add: e i)
qed

theorem buy_quantity_is_floor_witness:
  "''A'' \<notin> ({} :: symbol set) \<and> ''A'' \<notin> keys (open_trades (initial ())) \<and>
   kite_ltp (fixed_env (datetime_time 10 0) (Inr (Number 1000)) quotes_AB accept written)
     (instrument ''A'') (world (initial ())) = (Inr 400, ()) \<and>
   (0 :: real) < 400 \<and> (400 :: real) \<le> 1000 \<and> 1 \<le> \<lfloor>(1000 :: real) / 400\<rfloor> \<and>
   requests (issued (initial ())
      (snd (entry_step (fixed_env (datetime_time 10 0) (Inr (Number 1000)) quotes_AB accept written)
              False {} (1000, initial ()) ''A'')))
     = [Request BUY ''A'' 2 False]"
proof -
  let ?io = "fixed_env (datetime_time 10 0) (Inr (Number 1000)) quotes_AB accept written"
  have h1: "''A'' \<notin> ({} :: symbol set)" by simp
  have h2: "''A'' \<notin> keys (open_trades (initial ()))" by (simp add: initial_def keys_def)
  have h3: "kite_ltp ?io (instrument ''A'') (world (initial ())) = (Inr 400, ())"
    by (simp add: fixed_env_def quotes_AB_def instrument_def initial_def)
  have h4: "(0 :: real) < 400" by simp
  have h5: "(400 :: real) \<le> 1000" by simp
  show ?thesis
    using h1 h2 h3 h4 h5 buy_quantity_is_floor [OF h1 h2 h3 h4 h5, of False]
    by simp
qed

subsection \<open>Excluded symbols\<close>

text \<open>
  C8. Whatever the prediction list, the capital and the replies of the broker, and after
  any number of cycles: a symbol of the engine's exclusion set has no position in the book
  and no BUY was ever requested for it (the trace keeps every request, so this covers the
  states inside a cycle too).
\<close>

theorem excluded_symbol_never_bought:
  assumes "symbol \<in> excluded_stocks"
  shows "symbol \<notin> keys (open_trades (state_of (trading_loop fuel io poll_seconds max_cycles
            dry_run symbols_to_trade excluded_stocks (initial w)))) \<and>
         (\<forall>qty d. Request BUY symbol qty d \<notin> set (trace (state_of (trading_loop fuel io
            poll_seconds max_cycles dry_run symbols_to_trade excluded_stocks (initial w)))))"
proof -
  let ?st = "state_of (trading_loop fuel io poll_seconds max_cycles
            dry_run symbols_to_trade excluded_stocks (initial w))"
  have "never_entered symbol (initial w)"
    by (simp add: never_entered_def initial_def keys_def)
  with assms have n: "never_entered symbol ?st" by (rule never_entered_loop)
  have "Request BUY symbol qty d \<notin> set (trace ?st)" for qty d
  proof
    assume "Request BUY symbol qty d \<in> set (trace ?st)"
    then have "list_ex (is_buy_of symbol) (trace ?st)"
      unfolding list_ex_iff by (rule bexI [rotated]) simp
    with n show False by (simp add: never_entered_def)
  qed
  with n show ?thesis by (simp add: never_entered_def)
qed

theorem excluded_symbol_never_bought_witness:
  "''A'' \<in> {''A''} \<and>
   ''A'' \<notin> keys (open_trades (state_of (trading_loop (Suc 0)
      (fixed_env (datetime_time 10 0) (Inr (Number 1000)) quotes_AB accept written)
      30 None False [''A'', ''B''] {''A''} (initial ())))) \<and>
   Request BUY ''A'' 2 False \<notin> set (trace (state_of (trading_loop (Suc 0)
      (fixed_env (datetime_time 10 0) (Inr (Number 1000)) quotes_AB accept written)
      30 None False [''A'', ''B''] {''A''} (initial ())))) \<and>
   requests (trace (state_of (trading_loop (Suc 0)
      (fixed_env (datetime_time 10 0) (Inr (Number 1000)) quotes_AB accept written)
      30 None False [''A'', ''B''] {''A''} (initial ())))) = [Request BUY ''B'' 1 False]"
proof -
  have h: "''A'' \<in> {''A''}" by simp
  show ?thesis
    using h excluded_symbol_never_bought [OF h, of "Suc 0"
        "fixed_env (datetime_time 10 0) (Inr (Number 1000)) quotes_AB accept written"
        30 None False "[''A'', ''B'']" "()"]
    by (simp add: run_defs)
qed

subsection \<open>One position per symbol\<close>

text \<open>
  C9. The book never holds two positions of one symbol: its keys are distinct after any
  number of cycles from the empty book, and each entry step and each exit step keeps them
  distinct, so they are distinct inside a cycle too. An entry step for a symbol that has
  an open position changes nothing: it returns the wallet and the state it was given,
  trace and world included, so no order is placed and no journal line written.
\<close>

theorem one_position_per_symbol:
  "distinct (map fst (open_trades (state_of (trading_loop fuel io poll_seconds max_cycles
       dry_run symbols_to_trade excluded_stocks (initial w))))) \<and>
   (distinct (map fst (open_trades st)) \<longrightarrow>
      distinct (map fst (open_trades (snd (entry_step io dry_run excluded_stocks (wallet, st) symbol))))
      \<and> distinct (map fst (open_trades (exit_step io dry_run current_time st item)))) \<and>
   (symbol \<in> keys (open_trades st) \<longrightarrow>
      entry_step io dry_run excluded_stocks (wallet, st) symbol = (wallet, st))"
proof -
  have "distinct (map fst (open_trades (initial w)))" by (simp add: initial_def)
  then have "distinct (map fst (open_trades (state_of (trading_loop fuel io poll_seconds
       max_cycles dry_run symbols_to_trade excluded_stocks (initial w)))))"
    by (rule distinct_loop)
  moreover have "symbol \<in> keys (open_trades st) \<longrightarrow>
      entry_step io dry_run excluded_stocks (wallet, st) symbol = (wallet, st)"
    by (simp add: entry_step.simps keys_def)
  ultimately show ?thesis
    using distinct_entry [of st io dry_run excluded_stocks wallet symbol]
      distinct_exit [of st io dry_run current_time item]
    by blast
qed

theorem one_position_per_symbol_witness:
  "distinct (map fst (open_trades holding_A)) \<and> ''A'' \<in> keys (open_trades holding_A) \<and>
   entry_step (quoting 400 (datetime_time 10 0)) False {} (1000, holding_A) ''A''
     = (1000, holding_A) \<and>
   distinct (map fst (open_trades (snd
     (entry_step (quoting 400 (datetime_time 10 0)) False {} (1000, holding_A) ''B'')))) \<and>
   map fst (open_trades (snd
     (entry_step (quoting 400 (datetime_time 10 0)) False {} (1000, holding_A) ''B'')))
     = [''A'', ''B'']"
proof -
  have h1: "distinct (map fst (open_trades holding_A))" by (simp add: holding_A_def)
  have h2: "''A'' \<in> keys (open_trades holding_A)" by (simp add: holding_A_def keys_def)
  have "map fst (open_trades (snd
     (entry_step (quoting 400 (datetime_time 10 0)) False {} (1000, holding_A) ''B'')))
     = [''A'', ''B'']"
    by (simp add: run_defs holding_A_def quoting_def)
  then show ?thesis
    using h1 h2
      one_position_per_symbol [of 0 "quoting 400 (datetime_time 10 0)" 30 None False "[]" "{}" "()"
        holding_A 1000 "''A''" "datetime_time 10 0" "(''A'', five_at_400)"]
    by simp
qed


subsection \<open>A SELL that fails\<close>

text \<open>
  C1 says that a position whose SELL order fails stays in the book. The \<^verbatim>\<open>pop\<close> of line 198
  stands after the \<^verbatim>\<open>try/except\<close>, not inside the \<^verbatim>\<open>try\<close> as the book update of the
  BUY path does (line 158). Here 5 shares of A, bought at 400, are quoted at the target
  408 and the broker rejects the order: the error is logged and the position is gone.
\<close>

theorem failed_sell_drops_position:
  "exit_step (fixed_env (datetime_time 10 0) (Inr (Number 0)) (\<lambda>i. Inr 408) reject written)
      False (datetime_time 10 0) holding_A (''A'', five_at_400)
   = \<lparr>world = (), open_trades = [], cycle_count = 0,
      trace = [Request SELL ''A'' 5 False,
               Log (ErrorSell ''A'' (Exception ''order rejected''))]\<rparr>"
  by (simp add: run_defs holding_A_def)

subsection \<open>A journal line that cannot be written\<close>

text \<open>
  C2 says that an I/O error of the journal leaves the cycle. \<^verbatim>\<open>log_trade\<close> is called
  inside the \<^verbatim>\<open>try\<close> of the order (lines 156 and 194), whose handler catches every
  \<^verbatim>\<open>Exception\<close> and logs it as an order error. Here the balance is 2000, the broker
  accepts every order and the disk is full: the cycle ends normally, both orders were
  sent, the second one sized on the full 2000, and neither the book nor the journal
  knows of them.
\<close>

theorem journal_failure_is_swallowed:
  "trading_cycle (fixed_env (datetime_time 10 0) (Inr (Number 2000)) quotes_AB accept disk_full)
      30 False [''A'', ''B''] {} (initial ())
   = \<lparr>world = (), open_trades = [], cycle_count = 1,
      trace = [Request BUY ''A'' 5 False,
               Log (InfoBuy ''A'' 5 400 ''240101000000001''),
               Log (ErrorBuy ''A'' (Exception ''OSError: No space left on device'')),
               Request BUY ''B'' 2 False,
               Log (InfoBuy ''B'' 2 700 ''240101000000001''),
               Log (ErrorBuy ''B'' (Exception ''OSError: No space left on device''))]\<rparr>"
  by (simp add: run_defs)

subsection \<open>When a position is opened\<close>

text \<open>
  C4 as stated fails at one point: the position is inserted after the journal line (line
  156 before line 158), so a BUY whose placement succeeded leaves no position when the
  journal cannot be written.
\<close>

theorem placed_buy_without_position:
  "fst (place_market_order
         (fixed_env (datetime_time 10 0) (Inr (Number 1000)) quotes_AB accept disk_full)
         ''A'' 2 BUY False (initial ())) = Inr ''240101000000001'' \<and>
   buy_reported ''A'' (issued (initial ())
     (snd (entry_step (fixed_env (datetime_time 10 0) (Inr (Number 1000)) quotes_AB accept disk_full)
            False {} (1000, initial ()) ''A''))) \<and>
   ''A'' \<notin> keys (open_trades
     (snd (entry_step (fixed_env (datetime_time 10 0) (Inr (Number 1000)) quotes_AB accept disk_full)
            False {} (1000, initial ()) ''A'')))"
  by (simp add: run_defs buy_reported_def)

text \<open>
  \<open>buy_reported\<close>, read off the trace, is the success of the order placement itself.
\<close>

lemma try_buy_reported:
  assumes "try_buy io dry_run symbol qty last_price (wallet, st) = (wallet', st')"
  shows "buy_reported symbol (issued st st') =
           (case fst (place_market_order io symbol qty BUY dry_run st) of
              Inl exc \<Rightarrow> False | Inr order_id \<Rightarrow> True)"
proof -
  obtain r st1 where p: "place_market_order io symbol qty BUY dry_run st = (r, st1)"
    by (cases "place_market_order io symbol qty BUY dry_run st")
  note pe = place_market_order_effect [OF p]
  show ?thesis
  proof (cases r)
    case (Inl exc)
    with assms p pe show ?thesis
      by (auto simp add: try_buy_def emit_def issued_def buy_reported_def split: if_splits)
  next
    case (Inr order_id)
    obtain r2 st2 where l: "log_trade io BUY symbol qty last_price
          (emit (Log (InfoBuy symbol qty last_price order_id)) st1) = (r2, st2)"
      by (cases "log_trade io BUY symbol qty last_price
          (emit (Log (InfoBuy symbol qty last_price order_id)) st1)")
    note le = log_trade_effect [OF l]
    from assms p pe Inr l le show ?thesis
      by (cases r2) (auto simp add: try_buy_def emit_def issued_def buy_reported_def
            split: if_splits)
  qed
qed

text \<open>
  C4, amended. An entry step inserts a position for its symbol if and only if the BUY
  placement reported success and the BUY line was appended to the journal; the symbol had
  no position before. When the placement did not report success (the order failed, or the
  symbol was skipped before any order) the book and the wallet are unchanged.
\<close>

theorem position_iff_buy_placed_and_recorded:
  assumes "entry_step io dry_run excluded_stocks (wallet, st) symbol = (wallet', st')"
  shows "(if buy_reported symbol (issued st st') \<and> buy_recorded symbol (issued st st')
          then symbol \<notin> keys (open_trades st) \<and> symbol \<in> keys (open_trades st')
          else open_trades st' = open_trades st) \<and>
         (\<not> buy_reported symbol (issued st st') \<longrightarrow>
            open_trades st' = open_trades st \<and> wallet' = wallet)"
  using entry_step_effect [OF assms]
  by (auto simp: keys_update split: if_splits)

theorem position_iff_buy_placed_and_recorded_witness:
  "entry_step (fixed_env (datetime_time 10 0) (Inr (Number 1000)) quotes_AB accept written)
      False {} (1000, initial ()) ''A'' = (200, bought_A) \<and>
   buy_reported ''A'' (issued (initial ()) bought_A) \<and>
   buy_recorded ''A'' (issued (initial ()) bought_A) \<and>
   ''A'' \<notin> keys (open_trades (initial ())) \<and> ''A'' \<in> keys (open_trades bought_A)"
proof -
  have h: "entry_step (fixed_env (datetime_time 10 0) (Inr (Number 1000)) quotes_AB accept written)
      False {} (1000, initial ()) ''A'' = (200, bought_A)"
    by (simp add: run_defs bought_A_def)
  have r: "buy_reported ''A'' (issued (initial ()) bought_A) \<and>
           buy_recorded ''A'' (issued (initial ()) bought_A)"
    by (simp add: bought_A_def initial_def issued_def buy_reported_def buy_recorded_def)
  show ?thesis
    using h r position_iff_buy_placed_and_recorded [OF h]
    by simp
qed

subsection \<open>When the exclusion store is read\<close>






















subsection \<open>A cycle without a balance\<close>

lemma entry_step_no_funds:
  assumes "wallet \<le> 0"
    and "entry_step io dry_run excluded_stocks (wallet, st) symbol = (wallet', st')"
  shows "wallet' = wallet \<and> open_trades st' = open_trades st \<and>
         trace st' = trace st @ issued st st' \<and> requests (issued st st') = []"
proof (cases "symbol \<in> excluded_stocks \<or> symbol \<in> fst ` set (open_trades st)")
  case True
  with assms(2) show ?thesis
    by (auto simp: entry_step.simps issued_def requests_def)
next
  case False
  obtain r w where q: "kite_ltp io (instrument symbol) (world st) = (r, w)"
    by (cases "kite_ltp io (instrument symbol) (world st)")
  show ?thesis
  proof (cases r)
    case (Inl exc)
    with assms(2) False q show ?thesis
      by (auto simp: entry_step.simps emit_def issued_def requests_def)
  next
    case (Inr last_price)
    have "wallet < last_price \<or> last_price \<le> 0" using assms(1) by linarith
    with assms(2) False q Inr have "wallet' = wallet \<and> st' = st\<lparr>world := w\<rparr>"
      by (auto simp: entry_step.simps)
    then show ?thesis by (simp add: issued_def requests_def)
  qed
qed

lemma entry_scan_no_funds:
  assumes "wallet \<le> 0"
    and "entry_scan io dry_run excluded_stocks symbols_to_trade (wallet, st) = (wallet', st')"
  shows "wallet' = wallet \<and> open_trades st' = open_trades st \<and>
         trace st' = trace st @ issued st st' \<and> requests (issued st st') = []"
  using assms(2)
proof (induction symbols_to_trade arbitrary: st)
  case Nil
  then show ?case by (simp add: entry_scan_def issued_def requests_def)
next
  case (Cons symbol rest)
  obtain w1 st1 where e: "entry_step io dry_run excluded_stocks (wallet, st) symbol = (w1, st1)"
    by (cases "entry_step io dry_run excluded_stocks (wallet, st) symbol")
  note s = entry_step_no_funds [OF assms(1) e]
  have "entry_scan io dry_run excluded_stocks rest (wallet, st1) = (wallet', st')"
    using Cons.prems e s by (simp add: entry_scan_def)
  note r = Cons.IH [OF this]
  have t: "trace st' = trace st @ (issued st st1 @ issued st1 st')"
    using s r by simp
  have "issued st st' = issued st st1 @ issued st1 st'"
    using t by (rule issued_append)
  with s r t show ?case by (simp add: requests_def)
qed

lemma fetch_wallet_unavailable:
  assumes "balance_unavailable (fst (kite_margins io (world st)))"
  shows "fst (fetch_wallet io st) = 0"
  using assms
  by (auto simp: fetch_wallet_def balance_unavailable_def
      split: prod.splits sum.splits net_value.splits)

lemma trading_loop_runs_on:
  "\<exists>st'. trading_loop fuel io poll_seconds None dry_run symbols_to_trade excluded_stocks st
           = Running st'"
  by (induction fuel arbitrary: st) (simp_all add: Let_def)

text \<open>
  C10. In a cycle inside the window whose balance query fails, or answers without a
  \<^verbatim>\<open>net\<close> value or with a null one, the wallet is 0; the entry scan then leaves the book
  as it was and requests no order, whatever the candidates and their quotes; the cycle is
  the exit scan run on the state the entry scan left, over the positions that were open,
  followed by the sleep; and the loop with no cycle limit is still running after any
  amount of fuel.
\<close>

theorem no_entries_without_balance:
  assumes "in_window (now_time io (world st))"
    and "balance_unavailable (fst (kite_margins io (world st)))"
    and "st1 = st\<lparr>cycle_count := cycle_count st + 1\<rparr>"
    and "st2 = snd (entry_scan io dry_run excluded_stocks symbols_to_trade (fetch_wallet io st1))"
  shows "fst (fetch_wallet io st1) = 0 \<and>
         open_trades st2 = open_trades st \<and>
         requests (issued st st2) = [] \<and>
         trading_cycle io poll_seconds dry_run symbols_to_trade excluded_stocks st =
           (exit_scan io dry_run (now_time io (world st)) st2)
             \<lparr>world := time_sleep io poll_seconds
                         (world (exit_scan io dry_run (now_time io (world st)) st2))\<rparr> \<and>
         (\<exists>st'. trading_loop fuel io poll_seconds None dry_run symbols_to_trade excluded_stocks st
                  = Running st')"
proof -
  have w0: "fst (fetch_wallet io st1) = 0"
    using assms(2,3) by (simp add: fetch_wallet_unavailable)
  obtain wl sw where f: "fetch_wallet io st1 = (wl, sw)" by (cases "fetch_wallet io st1")
  have wl: "wl = 0" using w0 f by simp
  note fe = fetch_wallet_effect [of io st1]
  obtain wl' st' where sc: "entry_scan io dry_run excluded_stocks symbols_to_trade (wl, sw) = (wl', st')"
    by (cases "entry_scan io dry_run excluded_stocks symbols_to_trade (wl, sw)")
  have st2: "st2 = st'" using assms(4) f sc by simp
  have "wl \<le> 0" using wl by simp
  note se = entry_scan_no_funds [OF this sc]
  have t: "trace st2 = trace st @ (issued st1 sw @ issued sw st')"
    using fe f se st2 assms(3) by simp
  have i: "issued st st2 = issued st1 sw @ issued sw st'"
    using t by (rule issued_append)
  have b: "open_trades st2 = open_trades st"
    using fe f se st2 assms(3) by simp
  have r: "requests (issued st st2) = []"
    using i fe f se by (simp add: requests_def)
  have c: "trading_cycle io poll_seconds dry_run symbols_to_trade excluded_stocks st =
           (exit_scan io dry_run (now_time io (world st)) st2)
             \<lparr>world := time_sleep io poll_seconds
                         (world (exit_scan io dry_run (now_time io (world st)) st2))\<rparr>"
    using assms(1,3,4) by (simp add: trading_cycle_def Let_def)
  from w0 b r c trading_loop_runs_on [of fuel io poll_seconds dry_run symbols_to_trade
      excluded_stocks st]
  show ?thesis by simp
qed


theorem no_entries_without_balance_witness:
  "in_window (now_time (fixed_env (datetime_time 10 0) (Inl (Exception ''timeout''))
       (\<lambda>i. Inr 408) accept written) (world holding_A)) \<and>
   balance_unavailable (fst (kite_margins (fixed_env (datetime_time 10 0)
       (Inl (Exception ''timeout'')) (\<lambda>i. Inr 408) accept written) (world holding_A))) \<and>
   requests (issued holding_A (snd (entry_scan
       (fixed_env (datetime_time 10 0) (Inl (Exception ''timeout'')) (\<lambda>i. Inr 408) accept written)
       False {} [''A'', ''B'']
       (fetch_wallet (fixed_env (datetime_time 10 0) (Inl (Exception ''timeout''))
          (\<lambda>i. Inr 408) accept written)
          (holding_A\<lparr>cycle_count := cycle_count holding_A + 1\<rparr>))))) = [] \<and>
   trading_cycle (fixed_env (datetime_time 10 0) (Inl (Exception ''timeout''))
       (\<lambda>i. Inr 408) accept written) 30 False [''A'', ''B''] {} holding_A
     = \<lparr>world = (), open_trades = [], cycle_count = 1,
        trace = [Log (ErrorMargins (Exception ''timeout'')),
                 Request SELL ''A'' 5 False,
                 Log (InfoSell ''A'' 5 408 ''240101000000001''),
                 Journal \<lparr>e_timestamp = ''2024-01-01 10:00:00'', e_symbol = ''A'',
                          e_action = SELL, e_quantity = 5, e_price = 408\<rparr>]\<rparr>"
proof -
  let ?io = "fixed_env (datetime_time 10 0) (Inl (Exception ''timeout''))
       (\<lambda>i. Inr 408) accept written"
  have h1: "in_window (now_time ?io (world holding_A))"
    by (simp add: fixed_env_def in_window_def datetime_time_def)
  have h2: "balance_unavailable (fst (kite_margins ?io (world holding_A)))"
    by (simp add: fixed_env_def balance_unavailable_def)
  have c: "trading_cycle ?io 30 False [''A'', ''B''] {} holding_A
     = \<lparr>world = (), open_trades = [], cycle_count = 1,
        trace = [Log (ErrorMargins (Exception ''timeout'')),
                 Request SELL ''A'' 5 False,
                 Log (InfoSell ''A'' 5 408 ''240101000000001''),
                 Journal \<lparr>e_timestamp = ''2024-01-01 10:00:00'', e_symbol = ''A'',
                          e_action = SELL, e_quantity = 5, e_price = 408\<rparr>]\<rparr>"
    by (simp add: run_defs holding_A_def)
  show ?thesis
    using h1 h2 c
      no_entries_without_balance [OF h1 h2 refl refl, of False "{}" "[''A'', ''B'']" 30 0]
    by simp
qed


subsection \<open>When a SELL is issued\<close>
















subsection \<open>Sequential use of the wallet\<close>

text \<open>
  C6 as stated fails at one point: line 164 stands inside the \<^verbatim>\<open>try\<close>, after the journal
  line, so a BUY whose placement succeeded leaves the wallet as it was when the journal
  cannot be written. Here the wallet is 2000 and the disk is full: 5 shares of A are
  ordered for 2000, the wallet stays at 2000, and B is sized on it.
\<close>

theorem placed_buy_leaves_wallet:
  "buy_reported ''A'' (issued (initial ())
     (snd (entry_step (fixed_env (datetime_time 10 0) (Inr (Number 2000)) quotes_AB accept disk_full)
            False {} (2000, initial ()) ''A''))) \<and>
   entry_scan (fixed_env (datetime_time 10 0) (Inr (Number 2000)) quotes_AB accept disk_full)
      False {} [''A'', ''B''] (2000, initial ())
   = (2000,
      \<lparr>world = (), open_trades = [], cycle_count = 0,
       trace = [Request BUY ''A'' 5 False,
                Log (InfoBuy ''A'' 5 400 ''240101000000001''),
                Log (ErrorBuy ''A'' (Exception ''OSError: No space left on device'')),
                Request BUY ''B'' 2 False,
                Log (InfoBuy ''B'' 2 700 ''240101000000001''),
                Log (ErrorBuy ''B'' (Exception ''OSError: No space left on device''))]\<rparr>)"
  by (simp add: run_defs buy_reported_def)

text \<open>
  C6, amended. When the entry step of a candidate ends with the BUY placed and recorded in
  the journal, the wallet it hands on is the wallet less quantity times last price, in
  the float arithmetic of line 164, the quantity being \<open>\<lfloor>wallet / last_price\<rfloor>\<close>, and the
  candidates after it are scanned with that wallet. The instance that follows is the
  scenario of the specification: wallet 1000, A at 400 and then B at 700; A takes 2 shares
  for 800 and B, met with a wallet of 200, is skipped in the same scan.
\<close>

theorem wallet_decremented_before_next_candidate:
  assumes "symbols_to_trade = before @ symbol # rest"
    and "entry_scan io dry_run excluded_stocks before ws0 = (wallet, st)"
    and "entry_step io dry_run excluded_stocks (wallet, st) symbol = (wallet1, st1)"
    and "buy_reported symbol (issued st st1)" and "buy_recorded symbol (issued st st1)"
  shows "\<exists>last_price w.
           kite_ltp io (instrument symbol) (world st) = (Inr last_price, w) \<and>
           wallet1 = fl_round io (wallet -
                       fl_round io (fl_round io (of_int \<lfloor>wallet / last_price\<rfloor>) * last_price)) \<and>
           open_trades st1 =
             AList.update symbol (new_position io \<lfloor>wallet / last_price\<rfloor> last_price)
               (open_trades st) \<and>
           entry_scan io dry_run excluded_stocks symbols_to_trade ws0 =
             entry_scan io dry_run excluded_stocks rest (wallet1, st1)"
proof -
  have "entry_scan io dry_run excluded_stocks symbols_to_trade ws0 =
          entry_scan io dry_run excluded_stocks rest (wallet1, st1)"
    using assms(1,2,3) by (simp add: entry_scan_def)
  with entry_step_effect [OF assms(3)] assms(4,5) show ?thesis by auto
qed

theorem wallet_decremented_before_next_candidate_witness:
  "entry_step (fixed_env (datetime_time 10 0) (Inr (Number 1000)) quotes_AB accept written)
      False {} (1000, initial ()) ''A'' = (200, bought_A) \<and>
   buy_reported ''A'' (issued (initial ()) bought_A) \<and>
   buy_recorded ''A'' (issued (initial ()) bought_A) \<and>
   \<lfloor>(1000 :: real) / 400\<rfloor> = 2 \<and>
   double_round (1000 - double_round (double_round (of_int 2) * 400)) = 200 \<and>
   (200 :: real) < 700 \<and>
   entry_scan (fixed_env (datetime_time 10 0) (Inr (Number 1000)) quotes_AB accept written)
      False {} [''A'', ''B''] (1000, initial ())
   = entry_scan (fixed_env (datetime_time 10 0) (Inr (Number 1000)) quotes_AB accept written)
      False {} [''B''] (200, bought_A) \<and>
   entry_scan (fixed_env (datetime_time 10 0) (Inr (Number 1000)) quotes_AB accept written)
      False {} [''B''] (200, bought_A) = (200, bought_A)"
proof -
  let ?io = "fixed_env (datetime_time 10 0) (Inr (Number 1000)) quotes_AB accept written"
  have h1: "[''A'', ''B''] = [] @ ''A'' # [''B'']" by simp
  have h2: "entry_scan ?io False {} [] (1000, initial ()) = (1000, initial ())"
    by (simp add: entry_scan_def)
  have h: "entry_step ?io False {} (1000, initial ()) ''A'' = (200, bought_A)"
    by (simp add: run_defs bought_A_def)
  have r1: "buy_reported ''A'' (issued (initial ()) bought_A)"
    by (simp add: bought_A_def initial_def issued_def buy_reported_def)
  have r2: "buy_recorded ''A'' (issued (initial ()) bought_A)"
    by (simp add: bought_A_def initial_def issued_def buy_recorded_def)
  have b: "entry_scan ?io False {} [''B''] (200, bought_A) = (200, bought_A)"
    by (simp add: run_defs bought_A_def)
  have d: "double_round (1000 - double_round (double_round (of_int 2) * 400)) = 200"
    by (simp add: double_round_def)
  show ?thesis
    using h r1 r2 b d wallet_decremented_before_next_candidate [OF h1 h2 h r1 r2]
    by auto
qed

end
